theory Spec2Isabelle
  imports Main "HOL-Library.Signed_Division" "HOL-Library.Word"
begin

section \<open>The underlying representation\<close>

text \<open>
  \<^verbatim>\<open>strong::type<TypeName, Type>\<close> and the mixins of \<^verbatim>\<open>strong::op\<close> are templates: every
  operator they apply to the stored value is whatever \<^verbatim>\<open>Type\<close> defines for that operator
  token. The representation is therefore a parameter of the model, a table with one entry
  for each operator of \<^verbatim>\<open>Type\<close> that \<^verbatim>\<open>strong.hpp\<close> mentions. Two different tokens (\<^verbatim>\<open><\<close> and
  \<^verbatim>\<open>>\<close>, \<^verbatim>\<open>+\<close> and \<^verbatim>\<open>+=\<close>) are two entries: the header never relates them.

  Copying and comparison are total. The default constructor of \<^verbatim>\<open>Type\<close>, an arithmetic
  operator and a conversion may fail (a trap, an exception, an operation the language
  leaves undefined); they then yield \<open>Inl\<close> of a fault of the representation, and \<open>Inr\<close> of
  their result otherwise. A compound operator \<^verbatim>\<open>x op= y\<close> and an increment \<^verbatim>\<open>++x\<close> yield
  the new value of \<^verbatim>\<open>x\<close>.

  The expressions \<^verbatim>\<open>x + y\<close>, \<^verbatim>\<open>x - y\<close>, \<^verbatim>\<open>x * y\<close> and \<^verbatim>\<open>x / y\<close> on two values of \<^verbatim>\<open>Type\<close> have a
  type of their own, \<open>'x\<close>, which need not be \<^verbatim>\<open>Type\<close>: for a built-in type narrower than
  int it is int. \<open>rconv\<close> is the implicit conversion from that type to \<^verbatim>\<open>Type\<close>. The
  entry \<open>rmod\<close> is the remainder \<^verbatim>\<open>x % y\<close> as a value of \<^verbatim>\<open>Type\<close>: on the built-in types its
  magnitude is below that of \<^verbatim>\<open>y\<close>, so that converting it changes nothing.
\<close>

record ('t, 'x, 'e) rep =
  rdefault :: "'e + 't"
  rconv :: "'x \<Rightarrow> 'e + 't"
  req :: "'t \<Rightarrow> 't \<Rightarrow> bool"
  rlt :: "'t \<Rightarrow> 't \<Rightarrow> bool"
  rgt :: "'t \<Rightarrow> 't \<Rightarrow> bool"
  radd :: "'t \<Rightarrow> 't \<Rightarrow> 'e + 'x"
  radd_assign :: "'t \<Rightarrow> 't \<Rightarrow> 'e + 't"
  rsub :: "'t \<Rightarrow> 't \<Rightarrow> 'e + 'x"
  rsub_assign :: "'t \<Rightarrow> 't \<Rightarrow> 'e + 't"
  rmul :: "'t \<Rightarrow> 't \<Rightarrow> 'e + 'x"
  rmul_assign :: "'t \<Rightarrow> 't \<Rightarrow> 'e + 't"
  rdiv :: "'t \<Rightarrow> 't \<Rightarrow> 'e + 'x"
  rdiv_assign :: "'t \<Rightarrow> 't \<Rightarrow> 'e + 't"
  rmod :: "'t \<Rightarrow> 't \<Rightarrow> 'e + 't"
  rinc :: "'t \<Rightarrow> 'e + 't"
  rdec :: "'t \<Rightarrow> 'e + 't"

section \<open>The wrapper\<close>

text \<open>
  \<^verbatim>\<open>class type\<close> has the single private member \<^verbatim>\<open>Type value\<close>. The marker \<^verbatim>\<open>TypeName\<close> is the
  type parameter \<open>'n\<close>, which no constructor argument mentions: two wrappers over the same
  representation with different markers are different HOL types.
\<close>

datatype ('n, 't) type = Type (val: 't)

text \<open>
  The three constructors: \<^verbatim>\<open>type()\<close>, \<^verbatim>\<open>type(Type const &)\<close> and \<^verbatim>\<open>type(Type &&)\<close>. The first
  initialises the member with \<^verbatim>\<open>value()\<close>, which runs the default constructor of \<^verbatim>\<open>Type\<close>;
  where that fails no object is built.
\<close>

definition type_default :: "('t, 'x, 'e) rep \<Rightarrow> 'e + ('n, 't) type" where
  "type_default R = (case rdefault R of Inl e \<Rightarrow> Inl e | Inr v \<Rightarrow> Inr (Type v))"

definition type_copy :: "'t \<Rightarrow> ('n, 't) type" where
  "type_copy v = Type v"

definition type_move :: "'t \<Rightarrow> ('n, 't) type" where
  "type_move v = Type v"

text \<open>The explicit conversion operators \<^verbatim>\<open>operator Type &()\<close> and \<^verbatim>\<open>operator Type const &()\<close>.\<close>

definition to_underlying :: "('n, 't) type \<Rightarrow> 't" where
  "to_underlying object = val object"

text \<open>\<^verbatim>\<open>get\<close>: the \<^verbatim>\<open>static_cast\<close> to a reference to \<^verbatim>\<open>Type\<close>, which calls the conversion operator.\<close>

definition get :: "('n, 't) type \<Rightarrow> 't" where
  "get object = to_underlying object"

subsection \<open>Objects and references\<close>

text \<open>
  Every operator of the mixins takes its operands by reference. A reference is the address
  of an object in a store; an operator is given the store and returns it with its result.
  The reference that the mutable overload of \<^verbatim>\<open>get\<close> returns designates the member \<^verbatim>\<open>value\<close>
  of the object: writing through it replaces the stored value of that object.
\<close>

type_synonym ref = nat

type_synonym ('n, 't) store = "ref \<Rightarrow> ('n, 't) type"

definition assign_through_get :: "ref \<Rightarrow> 't \<Rightarrow> ('n, 't) store \<Rightarrow> ('n, 't) store" where
  "assign_through_get object v s = s(object := Type v)"

section \<open>The mixins\<close>

text \<open>
  The comparison mixins are taken at their default result type, \<^verbatim>\<open>Result = bool\<close>.
\<close>

subsection \<open>equals\<close>

definition operator_eq ::
  "('t, 'x, 'e) rep \<Rightarrow> ref \<Rightarrow> ref \<Rightarrow> ('n, 't) store \<Rightarrow> bool \<times> ('n, 't) store" where
  "operator_eq R lhs rhs s = (req R (get (s lhs)) (get (s rhs)), s)"

definition operator_ne ::
  "('t, 'x, 'e) rep \<Rightarrow> ref \<Rightarrow> ref \<Rightarrow> ('n, 't) store \<Rightarrow> bool \<times> ('n, 't) store" where
  "operator_ne R lhs rhs s = (case operator_eq R lhs rhs s of (r, s') \<Rightarrow> (\<not> r, s'))"

subsection \<open>orders\<close>

definition operator_lt ::
  "('t, 'x, 'e) rep \<Rightarrow> ref \<Rightarrow> ref \<Rightarrow> ('n, 't) store \<Rightarrow> bool \<times> ('n, 't) store" where
  "operator_lt R lhs rhs s = (rlt R (get (s lhs)) (get (s rhs)), s)"

definition operator_le ::
  "('t, 'x, 'e) rep \<Rightarrow> ref \<Rightarrow> ref \<Rightarrow> ('n, 't) store \<Rightarrow> bool \<times> ('n, 't) store" where
  "operator_le R lhs rhs s = (case operator_lt R rhs lhs s of (r, s') \<Rightarrow> (\<not> r, s'))"

definition operator_gt ::
  "('t, 'x, 'e) rep \<Rightarrow> ref \<Rightarrow> ref \<Rightarrow> ('n, 't) store \<Rightarrow> bool \<times> ('n, 't) store" where
  "operator_gt R lhs rhs s = (rgt R (get (s lhs)) (get (s rhs)), s)"

definition operator_ge ::
  "('t, 'x, 'e) rep \<Rightarrow> ref \<Rightarrow> ref \<Rightarrow> ('n, 't) store \<Rightarrow> bool \<times> ('n, 't) store" where
  "operator_ge R lhs rhs s = (case operator_gt R rhs lhs s of (r, s') \<Rightarrow> (\<not> r, s'))"

subsection \<open>adds, subtracts, multiplies, divides, modulo\<close>

text \<open>
  The binary operators build \<^verbatim>\<open>TypeName(get(lhs) op get(rhs))\<close> and return it by value. The
  constructor takes a \<^verbatim>\<open>Type\<close>, so the value of the expression is first converted to \<^verbatim>\<open>Type\<close>
  (\<open>to_Type\<close>) and the temporary is moved into the new object. The compound operators
  apply the representation's compound operator to \<^verbatim>\<open>get(lhs)\<close> and return the reference
  \<^verbatim>\<open>lhs\<close>. Where the representation's operator or the conversion fails nothing is built and
  nothing is returned: the fault is the outcome.
\<close>

definition to_Type :: "('t, 'x, 'e) rep \<Rightarrow> 'e + 'x \<Rightarrow> 'e + 't" where
  "to_Type R r = (case r of Inl e \<Rightarrow> Inl e | Inr x \<Rightarrow> rconv R x)"

definition operator_plus ::
  "('t, 'x, 'e) rep \<Rightarrow> ref \<Rightarrow> ref \<Rightarrow> ('n, 't) store \<Rightarrow> 'e + ('n, 't) type \<times> ('n, 't) store" where
  "operator_plus R lhs rhs s =
     (case to_Type R (radd R (get (s lhs)) (get (s rhs))) of
        Inl e \<Rightarrow> Inl e
      | Inr v \<Rightarrow> Inr (type_move v, s))"

definition operator_plus_assign ::
  "('t, 'x, 'e) rep \<Rightarrow> ref \<Rightarrow> ref \<Rightarrow> ('n, 't) store \<Rightarrow> 'e + ref \<times> ('n, 't) store" where
  "operator_plus_assign R lhs rhs s =
     (case radd_assign R (get (s lhs)) (get (s rhs)) of
        Inl e \<Rightarrow> Inl e
      | Inr v \<Rightarrow> Inr (lhs, assign_through_get lhs v s))"

definition operator_minus ::
  "('t, 'x, 'e) rep \<Rightarrow> ref \<Rightarrow> ref \<Rightarrow> ('n, 't) store \<Rightarrow> 'e + ('n, 't) type \<times> ('n, 't) store" where
  "operator_minus R lhs rhs s =
     (case to_Type R (rsub R (get (s lhs)) (get (s rhs))) of
        Inl e \<Rightarrow> Inl e
      | Inr v \<Rightarrow> Inr (type_move v, s))"

definition operator_minus_assign ::
  "('t, 'x, 'e) rep \<Rightarrow> ref \<Rightarrow> ref \<Rightarrow> ('n, 't) store \<Rightarrow> 'e + ref \<times> ('n, 't) store" where
  "operator_minus_assign R lhs rhs s =
     (case rsub_assign R (get (s lhs)) (get (s rhs)) of
        Inl e \<Rightarrow> Inl e
      | Inr v \<Rightarrow> Inr (lhs, assign_through_get lhs v s))"

definition operator_times ::
  "('t, 'x, 'e) rep \<Rightarrow> ref \<Rightarrow> ref \<Rightarrow> ('n, 't) store \<Rightarrow> 'e + ('n, 't) type \<times> ('n, 't) store" where
  "operator_times R lhs rhs s =
     (case to_Type R (rmul R (get (s lhs)) (get (s rhs))) of
        Inl e \<Rightarrow> Inl e
      | Inr v \<Rightarrow> Inr (type_move v, s))"

definition operator_times_assign ::
  "('t, 'x, 'e) rep \<Rightarrow> ref \<Rightarrow> ref \<Rightarrow> ('n, 't) store \<Rightarrow> 'e + ref \<times> ('n, 't) store" where
  "operator_times_assign R lhs rhs s =
     (case rmul_assign R (get (s lhs)) (get (s rhs)) of
        Inl e \<Rightarrow> Inl e
      | Inr v \<Rightarrow> Inr (lhs, assign_through_get lhs v s))"

definition operator_divide ::
  "('t, 'x, 'e) rep \<Rightarrow> ref \<Rightarrow> ref \<Rightarrow> ('n, 't) store \<Rightarrow> 'e + ('n, 't) type \<times> ('n, 't) store" where
  "operator_divide R lhs rhs s =
     (case to_Type R (rdiv R (get (s lhs)) (get (s rhs))) of
        Inl e \<Rightarrow> Inl e
      | Inr v \<Rightarrow> Inr (type_move v, s))"

definition operator_divide_assign ::
  "('t, 'x, 'e) rep \<Rightarrow> ref \<Rightarrow> ref \<Rightarrow> ('n, 't) store \<Rightarrow> 'e + ref \<times> ('n, 't) store" where
  "operator_divide_assign R lhs rhs s =
     (case rdiv_assign R (get (s lhs)) (get (s rhs)) of
        Inl e \<Rightarrow> Inl e
      | Inr v \<Rightarrow> Inr (lhs, assign_through_get lhs v s))"

definition operator_modulo ::
  "('t, 'x, 'e) rep \<Rightarrow> ref \<Rightarrow> ref \<Rightarrow> ('n, 't) store \<Rightarrow> 'e + ('n, 't) type \<times> ('n, 't) store" where
  "operator_modulo R lhs rhs s =
     (case rmod R (get (s lhs)) (get (s rhs)) of
        Inl e \<Rightarrow> Inl e
      | Inr v \<Rightarrow> Inr (type_move v, s))"

subsection \<open>increments, decrements\<close>





section \<open>A representation: the built-in int\<close>

text \<open>
  The example wraps \<^verbatim>\<open>int\<close> (\<^verbatim>\<open>strong::type<cycle_count, int>\<close>). Its values are the integers
  from \<open>- 2 ^ 31\<close> to \<open>2 ^ 31 - 1\<close>; a result outside that range and a zero divisor are
  undefined in C++ and are faults here. Division truncates towards zero. For a built-in
  type \<^verbatim>\<open>x op= y\<close> is \<^verbatim>\<open>x = x op y\<close>, \<^verbatim>\<open>++x\<close> is \<^verbatim>\<open>x += 1\<close> and \<^verbatim>\<open>x > y\<close> is \<^verbatim>\<open>y < x\<close>. The
  expressions on two ints are ints, value-initialisation gives zero and neither it nor
  the conversion can fail. \<open>Exception\<close> is the fault of a class type whose function throws.
\<close>

datatype fault = Overflow | DivByZero | Exception

definition int_range :: "int \<Rightarrow> fault + int" where
  "int_range v = (if - (2 ^ 31) \<le> v \<and> v < 2 ^ 31 then Inr v else Inl Overflow)"

definition int_quot :: "int \<Rightarrow> int \<Rightarrow> fault + int" where
  "int_quot x y =
     (if y = 0 then Inl DivByZero
      else case int_range (x sdiv y) of Inl e \<Rightarrow> Inl e | Inr q \<Rightarrow> Inr q)"

definition int_rem :: "int \<Rightarrow> int \<Rightarrow> fault + int" where
  "int_rem x y =
     (if y = 0 then Inl DivByZero
      else case int_range (x sdiv y) of Inl e \<Rightarrow> Inl e | Inr q \<Rightarrow> Inr (x smod y))"

definition cpp_int :: "(int, int, fault) rep" where
  "cpp_int =
     \<lparr> rdefault = Inr 0,
       rconv = (\<lambda>x. Inr x),
       req = (\<lambda>x y. x = y),
       rlt = (\<lambda>x y. x < y),
       rgt = (\<lambda>x y. y < x),
       radd = (\<lambda>x y. int_range (x + y)),
       radd_assign = (\<lambda>x y. int_range (x + y)),
       rsub = (\<lambda>x y. int_range (x - y)),
       rsub_assign = (\<lambda>x y. int_range (x - y)),
       rmul = (\<lambda>x y. int_range (x * y)),
       rmul_assign = (\<lambda>x y. int_range (x * y)),
       rdiv = int_quot,
       rdiv_assign = int_quot,
       rmod = int_rem,
       rinc = (\<lambda>x. int_range (x + 1)),
       rdec = (\<lambda>x. int_range (x - 1)) \<rparr>"

subsection \<open>The built-in unsigned char\<close>

text \<open>
  A type narrower than int: its values are the 8-bit words. In an arithmetic expression
  both operands are promoted to int and the expression is an int; the conversion of an
  int to \<^verbatim>\<open>unsigned char\<close> reduces it modulo \<open>2 ^ 8\<close>. The compound operators and the
  increments compute in int and convert back in the assignment, which on words is the
  wrapping arithmetic.
\<close>

definition cpp_uchar :: "(8 word, int, fault) rep" where
  "cpp_uchar =
     \<lparr> rdefault = Inr 0,
       rconv = (\<lambda>x. Inr (word_of_int x)),
       req = (\<lambda>x y. x = y),
       rlt = (\<lambda>x y. x < y),
       rgt = (\<lambda>x y. y < x),
       radd = (\<lambda>x y. int_range (uint x + uint y)),
       radd_assign = (\<lambda>x y. Inr (x + y)),
       rsub = (\<lambda>x y. int_range (uint x - uint y)),
       rsub_assign = (\<lambda>x y. Inr (x - y)),
       rmul = (\<lambda>x y. int_range (uint x * uint y)),
       rmul_assign = (\<lambda>x y. Inr (x * y)),
       rdiv = (\<lambda>x y. int_quot (uint x) (uint y)),
       rdiv_assign = (\<lambda>x y. if y = 0 then Inl DivByZero else Inr (x div y)),
       rmod = (\<lambda>x y. if y = 0 then Inl DivByZero else Inr (x mod y)),
       rinc = (\<lambda>x. Inr (x + 1)),
       rdec = (\<lambda>x. Inr (x - 1)) \<rparr>"

text \<open>The marker of the example's counting type, and the marker of a type of small levels.\<close>

datatype level = Level

datatype cycle_count = Cycle_count

section \<open>What each mixin declares\<close>

text \<open>
  The operator functions that each class of \<^verbatim>\<open>strong::op\<close> declares, in the order of the
  header (\<^verbatim>\<open>outputs\<close> and \<^verbatim>\<open>inputs\<close> under \<^verbatim>\<open>STRONG_USE_STL_STREAMS\<close>). The tokens are those
  of C++, whether or not a mixin declares them.
\<close>

datatype mixin =
  Equals | Orders | Adds | Subtracts | Multiplies | Divides | Modulo
  | Increments | Decrements | Outputs | Inputs

datatype operator_token =
  Tok_eq | Tok_ne | Tok_lt | Tok_le | Tok_gt | Tok_ge
  | Tok_plus | Tok_plus_assign | Tok_minus | Tok_minus_assign
  | Tok_times | Tok_times_assign | Tok_divide | Tok_divide_assign
  | Tok_modulo | Tok_modulo_assign
  | Tok_pre_inc | Tok_post_inc | Tok_pre_dec | Tok_post_dec
  | Tok_insert | Tok_extract

fun declares :: "mixin \<Rightarrow> operator_token list" where
  "declares Equals = [Tok_eq, Tok_ne]"
| "declares Orders = [Tok_lt, Tok_le, Tok_gt, Tok_ge]"
| "declares Adds = [Tok_plus, Tok_plus_assign]"
| "declares Subtracts = [Tok_minus, Tok_minus_assign]"
| "declares Multiplies = [Tok_times, Tok_times_assign]"
| "declares Divides = [Tok_divide, Tok_divide_assign]"
| "declares Modulo = [Tok_modulo]"
| "declares Increments = [Tok_pre_inc, Tok_post_inc]"
| "declares Decrements = [Tok_pre_dec, Tok_post_dec]"
| "declares Outputs = [Tok_insert]"
| "declares Inputs = [Tok_extract]"

section \<open>Representations with operators of their own\<close>

text \<open>
  A class type chooses each of its operators freely. \<open>clamped\<close> is a quantity whose \<^verbatim>\<open>+=\<close>
  saturates at 100 while its \<^verbatim>\<open>+\<close> does not; \<open>tolerant\<close> is a measurement whose \<^verbatim>\<open>>\<close> holds
  only beyond a tolerance of 10 while its \<^verbatim>\<open><\<close> is exact; \<open>throwing\<close> is a class whose default
  constructor throws. Their other operators are those of int.
\<close>

definition throwing :: "(int, int, fault) rep" where
  "throwing = cpp_int \<lparr> rdefault := Inl Exception \<rparr>"

definition clamped :: "(int, int, fault) rep" where
  "clamped = cpp_int \<lparr> radd_assign := (\<lambda>x y. Inr (min 100 (x + y))) \<rparr>"

definition tolerant :: "(int, int, fault) rep" where
  "tolerant = cpp_int \<lparr> rgt := (\<lambda>x y. y + 10 < x) \<rparr>"

text \<open>
  The comparison of a representation is a total order when its \<^verbatim>\<open>==\<close> is equality of
  values and its \<^verbatim>\<open><\<close> is irreflexive, transitive and relates every two different values
  one way or the other.
\<close>

definition rep_total_order :: "('t, 'x, 'e) rep \<Rightarrow> bool" where
  "rep_total_order R \<longleftrightarrow>
     (\<forall>x y. req R x y \<longleftrightarrow> x = y)
     \<and> (\<forall>x. \<not> rlt R x x)
     \<and> (\<forall>x y z. rlt R x y \<longrightarrow> rlt R y z \<longrightarrow> rlt R x z)
     \<and> (\<forall>x y. x \<noteq> y \<longrightarrow> rlt R x y \<or> rlt R y x)"

section \<open>Stores of the example\<close>

text \<open>
  \<open>scenario\<close> holds the example's \<^verbatim>\<open>cycles(50)\<close> at address 0 and \<^verbatim>\<open>more_cycles(60)\<close> at
  address 1; \<open>zero_divisor\<close> holds 50 at address 0 and 0 everywhere else; \<open>levels\<close> holds the
  unsigned chars 200 at address 0 and 100 at address 1.
\<close>

definition levels :: "(level, 8 word) store" where
  "levels = (\<lambda>_. Type 0)(0 := Type 200, 1 := Type 100)"

definition scenario :: "(cycle_count, int) store" where
  "scenario = (\<lambda>_. Type 0)(0 := Type 50, 1 := Type 60)"

definition zero_divisor :: "(cycle_count, int) store" where
  "zero_divisor = (\<lambda>_. Type 0)(0 := Type 50)"

section \<open>Unfolding\<close>

lemma scenario_simps: "scenario 0 = Type 50" "scenario (Suc 0) = Type 60"
  by (simp_all add: scenario_def)

lemma levels_simps: "levels 0 = Type 200" "levels (Suc 0) = Type 100"
  by (simp_all add: levels_def)

lemmas access_defs = get_def to_underlying_def type_move_def type_copy_def assign_through_get_def

lemmas comparison_defs = operator_eq_def operator_ne_def operator_lt_def operator_le_def
  operator_gt_def operator_ge_def

lemmas binary_defs = operator_plus_def operator_minus_def operator_times_def
  operator_divide_def operator_modulo_def to_Type_def

lemmas compound_defs = operator_plus_assign_def operator_minus_assign_def
  operator_times_assign_def operator_divide_assign_def

lemmas int_defs = cpp_int_def int_range_def int_quot_def int_rem_def
  signed_divide_int_def signed_modulo_int_def

text \<open>
  The first outputs of the example's \<^verbatim>\<open>main\<close>: \<^verbatim>\<open>cycles == more_cycles\<close> prints 0,
  \<^verbatim>\<open>cycles < more_cycles\<close> prints 1, \<^verbatim>\<open>cycles > more_cycles\<close> prints 0, \<^verbatim>\<open>get(cycles)\<close> prints 50,
  and \<^verbatim>\<open>cycles + more_cycles\<close> holds 110.
\<close>

lemma example_outputs:
  "\<not> fst (operator_eq cpp_int 0 1 scenario)"
  "fst (operator_lt cpp_int 0 1 scenario)"
  "\<not> fst (operator_gt cpp_int 0 1 scenario)"
  "get (scenario 0) = 50"
  "operator_plus cpp_int 0 1 scenario = Inr (Type 110, scenario)"
  by (simp_all add: comparison_defs binary_defs int_defs access_defs scenario_simps)

section \<open>Construction and access\<close>

text \<open>
  C6. Constructing a strong type from a value \<open>v\<close> of the representation, by the copying or
  by the moving constructor, and reading it back with \<^verbatim>\<open>get\<close> gives \<open>v\<close>.
\<close>

theorem get_construct_roundtrip:
  "get (type_copy v :: ('n, 't) type) = v \<and> get (type_move v :: ('n, 't) type) = v"
  by (simp add: get_def to_underlying_def type_copy_def type_move_def)

text \<open>
  C7, as stated, fails in its second half. Default construction runs the default
  constructor of the representation, and with the representation \<open>throwing\<close> it fails.
\<close>

theorem default_construct_can_fail:
  "(type_default throwing :: fault + (cycle_count, int) type) = Inl Exception"
  by (simp add: type_default_def throwing_def cpp_int_def)

text \<open>
  C7, amended. Default construction does what the default constructor of the
  representation does and nothing else: it fails exactly when that fails, with the same
  fault, and otherwise the new instance converts, through the conversion operator and
  through \<^verbatim>\<open>get\<close> alike, to the representation's own default value. For the built-in int
  it cannot fail and that value is zero.
\<close>

theorem default_construct_value:
  "map_sum id to_underlying (type_default R :: 'e + ('n, 't) type) = rdefault R
   \<and> map_sum id get (type_default R :: 'e + ('n, 't) type) = rdefault R
   \<and> (type_default cpp_int :: fault + ('n, int) type) = Inr (Type 0)
   \<and> map_sum id to_underlying (type_default cpp_int :: fault + ('n, int) type) = Inr 0"
  by (simp add: get_def to_underlying_def type_default_def cpp_int_def split: sum.split)

section \<open>Arithmetic\<close>

text \<open>
  C2, as stated, fails. Over \<^verbatim>\<open>unsigned char\<close> with the objects 200 and 100, the expression
  \<^verbatim>\<open>get(a) + get(b)\<close> is the int 300, while \<^verbatim>\<open>a + b\<close> holds 300 converted to \<^verbatim>\<open>unsigned char\<close>,
  which is 44.
\<close>

theorem narrow_sum_not_homomorphic:
  "radd cpp_uchar (get (levels 0)) (get (levels 1)) = Inr 300
   \<and> operator_plus cpp_uchar 0 1 levels = Inr (Type 44, levels)
   \<and> uint (get (Type 44 :: (level, 8 word) type)) \<noteq> 300"
  by (simp add: operator_plus_def to_Type_def cpp_uchar_def int_range_def access_defs
      levels_simps)

text \<open>
  C2, amended. For two instances \<open>a\<close>, \<open>b\<close> of a strong type, \<^verbatim>\<open>a + b\<close> is an instance of the
  operands' own strong type \<open>('n, 't) type\<close>, not of the representation, and read through
  \<^verbatim>\<open>get\<close> it is the value of the expression \<^verbatim>\<open>get(a) + get(b)\<close> converted to the
  representation type, or the fault of the operator or of the conversion. Whenever that
  conversion leaves every value as it is, the outcome of \<^verbatim>\<open>a + b\<close> read through \<^verbatim>\<open>get\<close> is the
  outcome of \<^verbatim>\<open>get(a) + get(b)\<close> itself. The same holds for \<^verbatim>\<open>-\<close>, \<^verbatim>\<open>*\<close> and \<^verbatim>\<open>/\<close>.
\<close>

theorem binary_operators_wrap_converted:
  fixes R :: "('t, 'x, 'e) rep" and s :: "('n, 't) store"
    and Q :: "('u, 'u, 'f) rep" and t :: "('m, 'u) store"
  shows "map_sum id (\<lambda>(c :: ('n, 't) type, s'). get c) (operator_plus R a b s)
           = to_Type R (radd R (get (s a)) (get (s b)))
   \<and> map_sum id (\<lambda>(c :: ('n, 't) type, s'). get c) (operator_minus R a b s)
           = to_Type R (rsub R (get (s a)) (get (s b)))
   \<and> map_sum id (\<lambda>(c :: ('n, 't) type, s'). get c) (operator_times R a b s)
           = to_Type R (rmul R (get (s a)) (get (s b)))
   \<and> map_sum id (\<lambda>(c :: ('n, 't) type, s'). get c) (operator_divide R a b s)
           = to_Type R (rdiv R (get (s a)) (get (s b)))
   \<and> ((\<forall>z. rconv Q z = Inr z) \<longrightarrow>
        map_sum id (\<lambda>(c :: ('m, 'u) type, s'). get c) (operator_plus Q a b t)
           = radd Q (get (t a)) (get (t b))
      \<and> map_sum id (\<lambda>(c :: ('m, 'u) type, s'). get c) (operator_minus Q a b t)
           = rsub Q (get (t a)) (get (t b))
      \<and> map_sum id (\<lambda>(c :: ('m, 'u) type, s'). get c) (operator_times Q a b t)
           = rmul Q (get (t a)) (get (t b))
      \<and> map_sum id (\<lambda>(c :: ('m, 'u) type, s'). get c) (operator_divide Q a b t)
           = rdiv Q (get (t a)) (get (t b)))"
proof -
  have gen: "\<And>(P :: ('v, 'w, 'g) rep) (r :: 'g + 'w) (u :: ('k, 'v) store).
      map_sum id (\<lambda>(c :: ('k, 'v) type, s'). get c)
        (case to_Type P r of Inl e \<Rightarrow> Inl e | Inr v \<Rightarrow> Inr (type_move v, u)) = to_Type P r"
    by (simp add: access_defs split: sum.split)
  have closed: "\<And>r :: 'f + 'u. \<forall>z. rconv Q z = Inr z \<Longrightarrow> to_Type Q r = r"
    by (simp add: to_Type_def split: sum.split)
  show ?thesis
    unfolding operator_plus_def operator_minus_def operator_times_def operator_divide_def gen
    by (simp add: closed)
qed

theorem binary_operators_wrap_converted_witness:
  "(\<forall>z. rconv cpp_int z = Inr z)
   \<and> map_sum id (\<lambda>(c :: (cycle_count, int) type, s'). get c) (operator_plus cpp_int 0 1 scenario)
       = Inr 110
   \<and> radd cpp_int (get (scenario 0)) (get (scenario 1)) = Inr 110
   \<and> map_sum id (\<lambda>(c :: (level, 8 word) type, s'). get c) (operator_plus cpp_uchar 0 1 levels)
       = Inr 44"
proof -
  have h: "\<forall>z. rconv cpp_int z = Inr z"
    by (simp add: cpp_int_def)
  have v: "radd cpp_int (get (scenario 0)) (get (scenario 1)) = Inr 110"
    by (simp add: int_defs access_defs scenario_simps)
  have w: "to_Type cpp_uchar (radd cpp_uchar (get (levels 0)) (get (levels 1))) = Inr 44"
    by (simp add: to_Type_def cpp_uchar_def int_range_def access_defs levels_simps)
  from binary_operators_wrap_converted [where R = cpp_uchar and s = levels and Q = cpp_int
      and t = scenario and a = 0 and b = 1] h v w
  show ?thesis
    by simp
qed

text \<open>
  C3, as stated, fails. With the representation \<open>clamped\<close> and the objects 50 and 60,
  \<^verbatim>\<open>a + b\<close> holds 110, while \<^verbatim>\<open>a += b\<close> leaves 100 in \<open>a\<close>.
\<close>

theorem plus_assign_differs_from_plus:
  "operator_plus clamped 0 1 scenario = Inr (Type 110, scenario)
   \<and> operator_plus_assign clamped 0 1 scenario = Inr (0, scenario(0 := Type 100))
   \<and> get ((scenario(0 := Type 100)) 0) \<noteq> get (Type 110 :: (cycle_count, int) type)"
  by (simp add: operator_plus_def to_Type_def operator_plus_assign_def clamped_def int_defs
      access_defs scenario_simps)

text \<open>
  C3, amended. \<^verbatim>\<open>a += b\<close> replaces the stored value of \<open>a\<close> in place by the result of the
  representation's own \<^verbatim>\<open>+=\<close> on the stored values of \<open>a\<close> and \<open>b\<close>, and the reference it
  returns is \<open>a\<close> itself. Whenever the representation's \<^verbatim>\<open>+=\<close> yields for these two values
  what its \<^verbatim>\<open>+\<close> yields, as \<^verbatim>\<open>a + b\<close> takes it (converted to the representation type), and
  \<^verbatim>\<open>a + b\<close> was computed as \<open>c\<close>, the operator returns and \<open>a\<close> then holds the value of \<open>c\<close>.
\<close>

theorem plus_assign_consistent:
  fixes s :: "('n, 't) store"
  shows "operator_plus_assign R a b s =
       (case radd_assign R (get (s a)) (get (s b)) of
          Inl e \<Rightarrow> Inl e
        | Inr v \<Rightarrow> Inr (a, s(a := Type v)))
   \<and> (radd_assign R (get (s a)) (get (s b)) = to_Type R (radd R (get (s a)) (get (s b)))
        \<and> operator_plus R a b s = Inr (c, s_plus)
      \<longrightarrow> operator_plus_assign R a b s = Inr (a, s(a := c))
          \<and> get ((s(a := c)) a) = get c)"
  by (auto simp add: operator_plus_def operator_plus_assign_def access_defs
      split: sum.splits)

theorem plus_assign_consistent_witness:
  "radd_assign cpp_int (get (scenario 0)) (get (scenario 1))
     = to_Type cpp_int (radd cpp_int (get (scenario 0)) (get (scenario 1)))
   \<and> operator_plus cpp_int 0 1 scenario = Inr (Type 110, scenario)
   \<and> operator_plus_assign cpp_int 0 1 scenario = Inr (0, scenario(0 := Type 110))
   \<and> get ((scenario(0 := Type 110)) 0) = (110 :: int)"
proof -
  have h1: "radd_assign cpp_int (get (scenario 0)) (get (scenario 1))
            = to_Type cpp_int (radd cpp_int (get (scenario 0)) (get (scenario 1)))"
    by (simp add: to_Type_def int_defs access_defs scenario_simps)
  have h2: "operator_plus cpp_int 0 1 scenario = Inr (Type 110, scenario)"
    by (simp add: operator_plus_def to_Type_def int_defs access_defs scenario_simps)
  from plus_assign_consistent [where R = cpp_int and a = 0 and b = 1 and s = scenario
      and c = "Type 110" and s_plus = scenario] h1 h2
  have "operator_plus_assign cpp_int 0 1 scenario = Inr (0, scenario(0 := Type 110))"
    by blast
  with h1 h2 show ?thesis
    by (simp add: get_def to_underlying_def)
qed

text \<open>
  C9. \<^verbatim>\<open>a % b\<close> is a new instance wrapping \<^verbatim>\<open>get(a) % get(b)\<close>, and it fails exactly as the
  representation's \<^verbatim>\<open>%\<close> fails, with the same fault: for int a zero divisor is the
  representation's fault, not a check of the mixin. The mixin \<^verbatim>\<open>modulo\<close> declares the binary
  operator alone, and no mixin declares \<^verbatim>\<open>%=\<close>.
\<close>

theorem modulo_binary_only:
  fixes s :: "('n, 't) store" and t :: "('m, int) store"
  shows "operator_modulo R a b s =
       (case rmod R (get (s a)) (get (s b)) of
          Inl e \<Rightarrow> Inl e
        | Inr v \<Rightarrow> Inr (Type v :: ('n, 't) type, s))
   \<and> (get (t b) = 0 \<longrightarrow> operator_modulo cpp_int a b t = Inl DivByZero)
   \<and> declares Modulo = [Tok_modulo]
   \<and> Tok_modulo_assign \<notin> set (declares m)"
  by (cases m)
    (simp_all add: operator_modulo_def access_defs cpp_int_def int_rem_def split: sum.split)

theorem modulo_binary_only_witness:
  "get (zero_divisor 1) = 0
   \<and> operator_modulo cpp_int 0 1 zero_divisor = Inl DivByZero
   \<and> operator_modulo cpp_int 0 1 scenario = Inr (Type 50, scenario)
   \<and> operator_modulo cpp_int 1 0 scenario = Inr (Type 10, scenario)"
proof -
  have h: "get (zero_divisor 1) = 0"
    by (simp add: zero_divisor_def access_defs)
  from modulo_binary_only [where R = cpp_int and a = 0 and b = 1 and s = scenario
      and t = zero_divisor]
    modulo_binary_only [where R = cpp_int and a = 1 and b = 0 and s = scenario
      and t = scenario] h
  show ?thesis
    by (simp add: int_defs access_defs scenario_simps)
qed

section \<open>Comparison\<close>

text \<open>
  C4, as stated, fails. With the representation \<open>tolerant\<close> and the objects 50 and 60,
  \<^verbatim>\<open>a >= b\<close> is true although \<^verbatim>\<open>a < b\<close> is true: \<^verbatim>\<open>>=\<close> negates \<^verbatim>\<open>b > a\<close>, and 60 is not
  greater than 50 beyond the tolerance.
\<close>

theorem ge_not_negated_lt:
  "fst (operator_ge tolerant 0 1 scenario) \<and> fst (operator_lt tolerant 0 1 scenario)
   \<and> fst (operator_ge tolerant 0 1 scenario) \<noteq> (\<not> fst (operator_lt tolerant 0 1 scenario))"
  by (simp add: operator_ge_def operator_gt_def operator_lt_def tolerant_def cpp_int_def
      access_defs scenario_simps)

text \<open>
  C4, amended. \<^verbatim>\<open><\<close> and \<^verbatim>\<open>>\<close> are the representation's own comparisons of the stored
  values. \<^verbatim>\<open>a <= b\<close> is the negation of \<^verbatim>\<open>b < a\<close>, and \<^verbatim>\<open>a >= b\<close> is the negation of \<^verbatim>\<open>b > a\<close>:
  each is derived from the strict comparison of the same direction with the operands
  swapped. \<^verbatim>\<open>a >= b\<close> is the negation of \<^verbatim>\<open>a < b\<close> whenever the representation's \<^verbatim>\<open>b > a\<close>
  agrees with its \<^verbatim>\<open>a < b\<close> on the two stored values.
\<close>

theorem derived_orderings:
  fixes s :: "('n, 't) store"
  shows "fst (operator_lt R a b s) = rlt R (get (s a)) (get (s b))
   \<and> fst (operator_gt R a b s) = rgt R (get (s a)) (get (s b))
   \<and> fst (operator_le R a b s) = (\<not> fst (operator_lt R b a s))
   \<and> fst (operator_ge R a b s) = (\<not> fst (operator_gt R b a s))
   \<and> (rgt R (get (s b)) (get (s a)) = rlt R (get (s a)) (get (s b))
        \<longrightarrow> fst (operator_ge R a b s) = (\<not> fst (operator_lt R a b s)))"
  by (simp add: operator_lt_def operator_gt_def operator_le_def operator_ge_def)

theorem derived_orderings_witness:
  "rgt cpp_int (get (scenario 1)) (get (scenario 0))
     = rlt cpp_int (get (scenario 0)) (get (scenario 1))
   \<and> fst (operator_lt cpp_int 0 1 scenario)
   \<and> \<not> fst (operator_ge cpp_int 0 1 scenario)
   \<and> fst (operator_le cpp_int 0 1 scenario)
   \<and> \<not> fst (operator_gt cpp_int 0 1 scenario)"
proof -
  have h: "rgt cpp_int (get (scenario 1)) (get (scenario 0))
           = rlt cpp_int (get (scenario 0)) (get (scenario 1))"
    by (simp add: cpp_int_def)
  have lt: "rlt cpp_int (get (scenario 0)) (get (scenario 1))"
    by (simp add: cpp_int_def access_defs scenario_simps)
  have gt: "\<not> rgt cpp_int (get (scenario 0)) (get (scenario 1))"
    by (simp add: cpp_int_def access_defs scenario_simps)
  have lt': "\<not> rlt cpp_int (get (scenario 1)) (get (scenario 0))"
    by (simp add: cpp_int_def access_defs scenario_simps)
  from derived_orderings [of cpp_int 0 1 scenario] derived_orderings [of cpp_int 1 0 scenario]
    h lt gt lt'
  show ?thesis
    by simp
qed

text \<open>
  C8. When the comparison of the representation is a total order, exactly one of
  \<^verbatim>\<open>a < b\<close>, \<^verbatim>\<open>a == b\<close> and \<^verbatim>\<open>b < a\<close> holds for two instances of a strong type with the
  mixins \<^verbatim>\<open>equals\<close> and \<^verbatim>\<open>orders\<close>.
\<close>

theorem trichotomy:
  fixes s :: "('n, 't) store"
  assumes "rep_total_order R"
  shows "(fst (operator_lt R a b s) \<and> \<not> fst (operator_eq R a b s)
            \<and> \<not> fst (operator_lt R b a s))
       \<or> (\<not> fst (operator_lt R a b s) \<and> fst (operator_eq R a b s)
            \<and> \<not> fst (operator_lt R b a s))
       \<or> (\<not> fst (operator_lt R a b s) \<and> \<not> fst (operator_eq R a b s)
            \<and> fst (operator_lt R b a s))"
proof -
  let ?x = "get (s a)" and ?y = "get (s b)"
  from assms have eq: "req R ?x ?y \<longleftrightarrow> ?x = ?y"
    and irrefl: "\<And>z. \<not> rlt R z z"
    and trans: "rlt R ?x ?y \<Longrightarrow> rlt R ?y ?x \<Longrightarrow> rlt R ?x ?x"
    and total: "?x \<noteq> ?y \<Longrightarrow> rlt R ?x ?y \<or> rlt R ?y ?x"
    unfolding rep_total_order_def by blast+
  show ?thesis
  proof (cases "?x = ?y")
    case True
    with eq irrefl show ?thesis
      by (simp add: operator_lt_def operator_eq_def)
  next
    case False
    with eq irrefl trans total show ?thesis
      by (auto simp add: operator_lt_def operator_eq_def)
  qed
qed

theorem trichotomy_witness:
  "rep_total_order cpp_int
   \<and> fst (operator_lt cpp_int 0 1 scenario)
   \<and> \<not> fst (operator_eq cpp_int 0 1 scenario)
   \<and> \<not> fst (operator_lt cpp_int 1 0 scenario)"
proof -
  have h: "rep_total_order cpp_int"
    by (auto simp add: rep_total_order_def cpp_int_def)
  have lt: "fst (operator_lt cpp_int 0 1 scenario)"
    by (simp add: operator_lt_def cpp_int_def access_defs scenario_simps)
  from trichotomy [OF h, of 0 1 scenario] h lt show ?thesis
    by simp
qed

section \<open>Increment and decrement\<close>



section \<open>What the operators leave unchanged\<close>

text \<open>
  C10. The comparison operators and the binary arithmetic operators return the store as
  they found it, so the stored values of both operands are unchanged. A compound
  assignment \<^verbatim>\<open>a op= b\<close> on two distinct objects leaves the stored value of \<open>b\<close> unchanged
  and changes no object other than \<open>a\<close>.
\<close>

theorem operands_frame:
  fixes s :: "('n, 't) store"
  shows "snd (operator_eq R a b s) = s \<and> snd (operator_ne R a b s) = s
   \<and> snd (operator_lt R a b s) = s \<and> snd (operator_le R a b s) = s
   \<and> snd (operator_gt R a b s) = s \<and> snd (operator_ge R a b s) = s
   \<and> (operator_plus R a b s = Inr (c_plus, s_plus) \<longrightarrow> s_plus = s)
   \<and> (operator_minus R a b s = Inr (c_minus, s_minus) \<longrightarrow> s_minus = s)
   \<and> (operator_times R a b s = Inr (c_times, s_times) \<longrightarrow> s_times = s)
   \<and> (operator_divide R a b s = Inr (c_divide, s_divide) \<longrightarrow> s_divide = s)
   \<and> (operator_modulo R a b s = Inr (c_modulo, s_modulo) \<longrightarrow> s_modulo = s)
   \<and> (a \<noteq> b \<and> operator_plus_assign R a b s = Inr (r_plus, t_plus)
        \<longrightarrow> get (t_plus b) = get (s b) \<and> (\<forall>p. p \<noteq> a \<longrightarrow> t_plus p = s p))
   \<and> (a \<noteq> b \<and> operator_minus_assign R a b s = Inr (r_minus, t_minus)
        \<longrightarrow> get (t_minus b) = get (s b) \<and> (\<forall>p. p \<noteq> a \<longrightarrow> t_minus p = s p))
   \<and> (a \<noteq> b \<and> operator_times_assign R a b s = Inr (r_times, t_times)
        \<longrightarrow> get (t_times b) = get (s b) \<and> (\<forall>p. p \<noteq> a \<longrightarrow> t_times p = s p))
   \<and> (a \<noteq> b \<and> operator_divide_assign R a b s = Inr (r_divide, t_divide)
        \<longrightarrow> get (t_divide b) = get (s b) \<and> (\<forall>p. p \<noteq> a \<longrightarrow> t_divide p = s p))"
proof -
  have cmp: "snd (operator_eq R a b s) = s \<and> snd (operator_ne R a b s) = s
   \<and> snd (operator_lt R a b s) = s \<and> snd (operator_le R a b s) = s
   \<and> snd (operator_gt R a b s) = s \<and> snd (operator_ge R a b s) = s"
    by (simp add: comparison_defs)
  have bin: "(operator_plus R a b s = Inr (c_plus, s_plus) \<longrightarrow> s_plus = s)
   \<and> (operator_minus R a b s = Inr (c_minus, s_minus) \<longrightarrow> s_minus = s)
   \<and> (operator_times R a b s = Inr (c_times, s_times) \<longrightarrow> s_times = s)
   \<and> (operator_divide R a b s = Inr (c_divide, s_divide) \<longrightarrow> s_divide = s)
   \<and> (operator_modulo R a b s = Inr (c_modulo, s_modulo) \<longrightarrow> s_modulo = s)"
    by (simp add: binary_defs split: sum.split)
  have asg: "\<And>f r s'. a \<noteq> b \<Longrightarrow>
      (case f (get (s a)) (get (s b)) of
         Inl e \<Rightarrow> Inl e
       | Inr v \<Rightarrow> Inr (a, assign_through_get a v s)) = Inr (r, s')
      \<Longrightarrow> get (s' b) = get (s b) \<and> (\<forall>p. p \<noteq> a \<longrightarrow> s' p = s p)"
    by (auto simp add: assign_through_get_def split: sum.splits)
  from cmp bin asg show ?thesis
    unfolding compound_defs by blast
qed

theorem operands_frame_witness:
  "snd (operator_eq cpp_int 0 1 scenario) = scenario
   \<and> operator_plus cpp_int 0 1 scenario = Inr (Type 110, scenario)
   \<and> operator_minus cpp_int 0 1 scenario = Inr (Type (- 10), scenario)
   \<and> operator_times cpp_int 0 1 scenario = Inr (Type 3000, scenario)
   \<and> operator_divide cpp_int 0 1 scenario = Inr (Type 0, scenario)
   \<and> operator_modulo cpp_int 0 1 scenario = Inr (Type 50, scenario)
   \<and> (0 :: ref) \<noteq> 1
   \<and> operator_plus_assign cpp_int 0 1 scenario = Inr (0, scenario(0 := Type 110))
   \<and> operator_minus_assign cpp_int 0 1 scenario = Inr (0, scenario(0 := Type (- 10)))
   \<and> operator_times_assign cpp_int 0 1 scenario = Inr (0, scenario(0 := Type 3000))
   \<and> operator_divide_assign cpp_int 0 1 scenario = Inr (0, scenario(0 := Type 0))
   \<and> get ((scenario(0 := Type 110)) 1) = get (scenario 1)
   \<and> get ((scenario(0 := Type (- 10))) 1) = get (scenario 1)
   \<and> get ((scenario(0 := Type 3000)) 1) = get (scenario 1)
   \<and> get ((scenario(0 := Type 0)) 1) = get (scenario 1)"
proof -
  have bin: "operator_plus cpp_int 0 1 scenario = Inr (Type 110, scenario)"
    "operator_minus cpp_int 0 1 scenario = Inr (Type (- 10), scenario)"
    "operator_times cpp_int 0 1 scenario = Inr (Type 3000, scenario)"
    "operator_divide cpp_int 0 1 scenario = Inr (Type 0, scenario)"
    "operator_modulo cpp_int 0 1 scenario = Inr (Type 50, scenario)"
    by (simp_all add: binary_defs int_defs access_defs scenario_simps)
  have asg: "operator_plus_assign cpp_int 0 1 scenario = Inr (0, scenario(0 := Type 110))"
    "operator_minus_assign cpp_int 0 1 scenario = Inr (0, scenario(0 := Type (- 10)))"
    "operator_times_assign cpp_int 0 1 scenario = Inr (0, scenario(0 := Type 3000))"
    "operator_divide_assign cpp_int 0 1 scenario = Inr (0, scenario(0 := Type 0))"
    by (simp_all add: compound_defs int_defs access_defs scenario_simps)
  have ne: "(0 :: ref) \<noteq> 1"
    by simp
  from operands_frame [where R = cpp_int and a = 0 and b = 1 and s = scenario
      and c_plus = "Type 110" and s_plus = scenario
      and c_minus = "Type (- 10)" and s_minus = scenario
      and c_times = "Type 3000" and s_times = scenario
      and c_divide = "Type 0" and s_divide = scenario
      and c_modulo = "Type 50" and s_modulo = scenario
      and r_plus = 0 and t_plus = "scenario(0 := Type 110)"
      and r_minus = 0 and t_minus = "scenario(0 := Type (- 10))"
      and r_times = 0 and t_times = "scenario(0 := Type 3000)"
      and r_divide = 0 and t_divide = "scenario(0 := Type 0)"]
    bin asg ne
  show ?thesis
    by simp
qed

end
